theory Spec2Isabelle
  imports Complex_Main
begin

section \<open>Values of the host language\<close>

text \<open>
  A number of the language is a double. A chance is an \<open>int\<close> (every producer rounds to
  an integer); any other number is the \<open>real\<close> that the double denotes, and an arithmetic
  operation on such numbers rounds its exact result to the nearest double (\<open>fl\<close> below).
  Infinite values are not represented. A value that may be \<open>null\<close>, \<open>undefined\<close> or \<open>NaN\<close>
  is an \<open>option\<close>, \<open>None\<close> standing for the missing value. Strings are byte lists. Time is
  the number of milliseconds since the epoch.
\<close>

subsection \<open>Doubles\<close>

text \<open>The number of binary digits of a positive integer.\<close>

function bit_length :: "int \<Rightarrow> nat" where
  "bit_length n = (if n \<le> 0 then 0 else Suc (bit_length (n div 2)))"
  by pat_completeness auto
termination
  by (relation "measure nat") auto

declare bit_length.simps [simp del]

text \<open>The binary exponent of a positive number: the \<open>e\<close> with \<open>2 ^ e \<le> x < 2 ^ (e + 1)\<close>.\<close>

definition ilog2 :: "real \<Rightarrow> int" where
  "ilog2 x = (if 1 \<le> x then int (bit_length \<lfloor>x\<rfloor>) - 1
              else - int (bit_length (\<lceil>1 / x\<rceil> - 1)))"

text \<open>The nearest integer, a tie going to the even one.\<close>

definition round_half_even :: "real \<Rightarrow> int" where
  "round_half_even q =
     (if q - of_int \<lfloor>q\<rfloor> < 1 / 2 then \<lfloor>q\<rfloor>
      else if 1 / 2 < q - of_int \<lfloor>q\<rfloor> then \<lfloor>q\<rfloor> + 1
      else if even \<lfloor>q\<rfloor> then \<lfloor>q\<rfloor> else \<lfloor>q\<rfloor> + 1)"

text \<open>
  The spacing of the doubles around \<open>x\<close>: 52 binary digits below the exponent of \<open>x\<close>, and
  \<open>2 ^ -1074\<close> for the subnormal numbers.
\<close>

definition quantum :: "real \<Rightarrow> real" where
  "quantum x = 2 powi (max (ilog2 \<bar>x\<bar>) (- 1022) - 52)"

text \<open>
  \<open>fl x\<close> is the double nearest to \<open>x\<close>, a tie going to the even mantissa: the rounding of
  every arithmetic operation and of \<open>parseFloat\<close>. A result beyond the largest double is
  \<open>Infinity\<close> in the language and stays finite here.
\<close>

definition fl :: "real \<Rightarrow> real" where
  "fl x =
     (if x = 0 then 0
      else sgn x * of_int (round_half_even (\<bar>x\<bar> / quantum x)) * quantum x)"

subsection \<open>Builtins\<close>

text \<open>\<open>Math.round\<close>: the nearest integer, a tie going up.\<close>

definition Math_round :: "real \<Rightarrow> int" where
  "Math_round x = \<lfloor>x + 1 / 2\<rfloor>"

text \<open>Truthiness of a string, of a number and of a number that may be \<open>null\<close>.\<close>

definition truthy_str :: "string \<Rightarrow> bool" where
  "truthy_str s = (s \<noteq> [])"

definition truthy_num :: "int option \<Rightarrow> bool" where
  "truthy_num v = (case v of None \<Rightarrow> False | Some n \<Rightarrow> n \<noteq> 0)"

text \<open>\<open>a || b\<close> on numbers that may be \<open>null\<close>: \<open>a\<close> when it is truthy, else \<open>b\<close> as it is.\<close>

definition or_num :: "int option \<Rightarrow> int option \<Rightarrow> int option" where
  "or_num a b = (if truthy_num a then a else b)"

text \<open>\<open>v || 0\<close>: the closing default of a chain.\<close>

definition or_zero :: "int option \<Rightarrow> int" where
  "or_zero v = (case v of None \<Rightarrow> 0 | Some n \<Rightarrow> if n \<noteq> 0 then n else 0)"

text \<open>\<open>s || d\<close> on strings.\<close>

definition or_str :: "string \<Rightarrow> string \<Rightarrow> string" where
  "or_str s d = (if truthy_str s then s else d)"

text \<open>\<open>s.split(' ')\<close>: the pieces between the separators, empty pieces kept.\<close>

fun str_split :: "char \<Rightarrow> string \<Rightarrow> string list" where
  "str_split sep [] = [[]]"
| "str_split sep (c # cs) =
     (if c = sep then [] # str_split sep cs
      else (case str_split sep cs of
              [] \<Rightarrow> [[c]]
            | w # ws \<Rightarrow> (c # w) # ws))"

text \<open>\<open>s.toLowerCase()\<close>, on the letters A to Z.\<close>

definition toLowerChar :: "char \<Rightarrow> char" where
  "toLowerChar c =
     (case map_of (zip ''ABCDEFGHIJKLMNOPQRSTUVWXYZ'' ''abcdefghijklmnopqrstuvwxyz'') c of
        None \<Rightarrow> c
      | Some l \<Rightarrow> l)"

definition toLowerCase :: "string \<Rightarrow> string" where
  "toLowerCase s = map toLowerChar s"

text \<open>\<open>s.includes(t)\<close>: \<open>t\<close> occurs in \<open>s\<close> as a contiguous piece.\<close>

fun starts_with :: "string \<Rightarrow> string \<Rightarrow> bool" where
  "starts_with s [] = True"
| "starts_with [] (d # t) = False"
| "starts_with (c # s) (d # t) = (c = d \<and> starts_with s t)"

fun str_includes :: "string \<Rightarrow> string \<Rightarrow> bool" where
  "str_includes [] t = (t = [])"
| "str_includes (c # s) t = (starts_with (c # s) t \<or> str_includes s t)"

text \<open>
  \<open>parseFloat\<close> is a builtin of the language, so every function that calls it takes it as
  its first argument: a function from strings to numbers, \<open>None\<close> being \<open>NaN\<close>. The
  theorems hold for every such function. The worked examples need one that runs:
  \<open>parseDecimal\<close> reads the strings of the form \<open>[-]digits[.digits]\<close> and nothing else;
  on them it gives what \<open>parseFloat\<close> gives, the double nearest to the decimal number
  written.
\<close>

type_synonym parser = "string \<Rightarrow> real option"

definition digit_val :: "char \<Rightarrow> nat option" where
  "digit_val c = map_of (zip ''0123456789'' [0, 1, 2, 3, 4, 5, 6, 7, 8, 9]) c"

fun digits_val :: "nat \<Rightarrow> string \<Rightarrow> nat option" where
  "digits_val acc [] = Some acc"
| "digits_val acc (c # cs) =
     (case digit_val c of
        None \<Rightarrow> None
      | Some d \<Rightarrow> digits_val (10 * acc + d) cs)"

definition parseUnsigned :: "string \<Rightarrow> real option" where
  "parseUnsigned s =
     (let ip = takeWhile (\<lambda>c. c \<noteq> CHR ''.'') s;
          rest = dropWhile (\<lambda>c. c \<noteq> CHR ''.'') s;
          fp = tl rest
      in if ip = [] \<or> (rest \<noteq> [] \<and> fp = []) then None
         else (case digits_val 0 ip of
                 None \<Rightarrow> None
               | Some i \<Rightarrow>
                   (case digits_val 0 fp of
                      None \<Rightarrow> None
                    | Some f \<Rightarrow> Some (real i + real f / 10 ^ length fp))))"

definition parseDecimal :: parser where
  "parseDecimal s =
     (case s of
        [] \<Rightarrow> None
      | c # r \<Rightarrow>
          if c = CHR ''-'' then map_option (\<lambda>x. fl (- x)) (parseUnsigned r)
          else map_option fl (parseUnsigned s))"

section \<open>The upstream source: \<open>FootballApiService\<close>\<close>

subsection \<open>Odds to probability\<close>

text \<open>
  \<open>Math.round((1 / odds) * 100)\<close>: the division and the multiplication each round to a
  double; \<open>Math.round\<close> is exact.
\<close>

definition calculateWinChanceFromOdds :: "parser \<Rightarrow> string \<Rightarrow> int option" where
  "calculateWinChanceFromOdds parseFloat oddsString =
     (case parseFloat oddsString of
        None \<Rightarrow> None
      | Some odds \<Rightarrow>
          if odds \<le> 0 then None
          else Some (Math_round (fl (fl (1 / odds) * 100))))"

text \<open>The argument of \<open>parseConfidence\<close> is a lookup in \<open>predictions_conf\<close>: \<open>None\<close> is an absent key.\<close>

definition parseConfidence :: "parser \<Rightarrow> string option \<Rightarrow> int option" where
  "parseConfidence parseFloat confidenceString =
     (case confidenceString of
        None \<Rightarrow> None
      | Some cs \<Rightarrow>
          if \<not> truthy_str cs then None
          else (case parseFloat cs of
                  None \<Rightarrow> None
                | Some confidence \<Rightarrow> Some (Math_round confidence)))"

subsection \<open>Data\<close>

text \<open>
  \<open>BetminerMatch\<close>, as the interface declares it, with the fields the service reads.
  \<open>predictions_conf\<close> is indexed by arbitrary keys, so a key may be absent.
\<close>

record match_details =
  date :: string
  homeTeam :: string
  awayTeam :: string
  country :: string
  competition :: string
  competition_full :: string

record match_odds =
  home_win_odds :: string
  away_win_odds :: string
  draw_odds :: string

record BetminerMatch =
  details :: match_details
  predictions_conf :: "string \<rightharpoonup> string"
  odds :: match_odds

text \<open>
  \<open>TransformedPrediction\<close>. \<open>PredictionResponseDto\<close> has the same twelve fields with
  the same types, so one record serves both.
\<close>

record TransformedPrediction =
  homeTeam :: string
  awayTeam :: string
  homeWinChance :: int
  awayWinChance :: int
  drawChance :: int
  matchTime :: string
  competition :: string
  date :: string
  country :: "string option"
  homeWinOdds :: "real option"
  awayWinOdds :: "real option"
  drawOdds :: "real option"

type_synonym PredictionResponseDto = TransformedPrediction

subsection \<open>Normalization\<close>

definition extractTimeFromDate :: "string \<Rightarrow> string" where
  "extractTimeFromDate dateString =
     (let parts = str_split CHR '' '' dateString
      in if length parts \<ge> 2 then take 5 (parts ! 1) else ''00:00'')"

text \<open>\<open>parseFloat(s) || undefined\<close>.\<close>

definition odds_or_undefined :: "parser \<Rightarrow> string \<Rightarrow> real option" where
  "odds_or_undefined parseFloat s =
     (case parseFloat s of
        None \<Rightarrow> None
      | Some x \<Rightarrow> if x = 0 then None else Some x)"

text \<open>
  The three chances of a match, as the first statements of the mapping compute them:
  \<^verbatim>\<open>calculateWinChanceFromOdds(match.odds.home_win_odds) || parseConfidence(match.predictions_conf.HOME_WIN) || 0\<close>
  for the home side, and the same chain on the away and the draw fields.
\<close>

definition resolveHomeWinChance :: "parser \<Rightarrow> BetminerMatch \<Rightarrow> int" where
  "resolveHomeWinChance parseFloat m =
     or_zero (or_num (calculateWinChanceFromOdds parseFloat (home_win_odds (odds m)))
                     (parseConfidence parseFloat (predictions_conf m ''HOME_WIN'')))"

definition resolveAwayWinChance :: "parser \<Rightarrow> BetminerMatch \<Rightarrow> int" where
  "resolveAwayWinChance parseFloat m =
     or_zero (or_num (calculateWinChanceFromOdds parseFloat (away_win_odds (odds m)))
                     (parseConfidence parseFloat (predictions_conf m ''AWAY_WIN'')))"

definition resolveDrawChance :: "parser \<Rightarrow> BetminerMatch \<Rightarrow> int" where
  "resolveDrawChance parseFloat m =
     or_zero (or_num (calculateWinChanceFromOdds parseFloat (draw_odds (odds m)))
                     (parseConfidence parseFloat (predictions_conf m ''DRAW'')))"

text \<open>
  \<open>transformBetminerData\<close> maps a function over the matches and filters the results:
  \<open>transformMatch\<close> is the function, \<open>validPrediction\<close> the condition of the filter.
\<close>

definition transformMatch :: "parser \<Rightarrow> BetminerMatch \<Rightarrow> TransformedPrediction" where
  "transformMatch parseFloat m =
     \<lparr> homeTeam = match_details.homeTeam (details m),
       awayTeam = match_details.awayTeam (details m),
       homeWinChance = resolveHomeWinChance parseFloat m,
       awayWinChance = resolveAwayWinChance parseFloat m,
       drawChance = resolveDrawChance parseFloat m,
       matchTime = extractTimeFromDate (match_details.date (details m)),
       competition = or_str (competition_full (details m)) (match_details.competition (details m)),
       date = (case str_split CHR '' '' (match_details.date (details m)) of
                 [] \<Rightarrow> []
               | part # _ \<Rightarrow> part),
       country = Some (match_details.country (details m)),
       homeWinOdds = odds_or_undefined parseFloat (home_win_odds (odds m)),
       awayWinOdds = odds_or_undefined parseFloat (away_win_odds (odds m)),
       drawOdds = odds_or_undefined parseFloat (draw_odds (odds m)) \<rparr>"

definition validPrediction :: "TransformedPrediction \<Rightarrow> bool" where
  "validPrediction prediction =
     (truthy_str (homeTeam prediction) \<and> truthy_str (awayTeam prediction)
      \<and> homeWinChance prediction > 0)"

definition transformBetminerData :: "parser \<Rightarrow> BetminerMatch list \<Rightarrow> TransformedPrediction list" where
  "transformBetminerData parseFloat betminerMatches =
     filter validPrediction (map (transformMatch parseFloat) betminerMatches)"

subsection \<open>The built-in sample set\<close>

text \<open>A numeric literal of the source denotes the double nearest to it.\<close>

definition getMockPredictions :: "string \<Rightarrow> TransformedPrediction list" where
  "getMockPredictions d =
     [ \<lparr> homeTeam = ''Real Soacha'', awayTeam = ''Deportes Tolima'',
         homeWinChance = 21, awayWinChance = 62, drawChance = 26,
         matchTime = ''00:00'', competition = ''Colombia Copa Colombia'',
         date = d, country = Some ''Colombia'',
         homeWinOdds = Some (fl 4.75), awayWinOdds = Some (fl 1.60), drawOdds = Some (fl 3.90) \<rparr>,
       \<lparr> homeTeam = ''Deportivo Cali'', awayTeam = ''Union Magdalena'',
         homeWinChance = 56, awayWinChance = 18, drawChance = 32,
         matchTime = ''00:30'', competition = ''Colombia Primera A'',
         date = d, country = Some ''Colombia'',
         homeWinOdds = Some (fl 1.80), awayWinOdds = Some (fl 5.50), drawOdds = Some (fl 3.10) \<rparr>,
       \<lparr> homeTeam = ''Am'' @ [CHR 0xC3, CHR 0xA9] @ ''rica W'', awayTeam = ''Puebla W'',
         homeWinChance = 99, awayWinChance = 1, drawChance = 3,
         matchTime = ''01:00'', competition = ''Mexico Liga MX Femenil'',
         date = d, country = Some ''Mexico'',
         homeWinOdds = Some (fl 1.01), awayWinOdds = Some (fl 67.00), drawOdds = Some (fl 29.00) \<rparr>,
       \<lparr> homeTeam = ''Toluca W'', awayTeam = ''Guadalajara W'',
         homeWinChance = 40, awayWinChance = 38, drawChance = 31,
         matchTime = ''01:00'', competition = ''Mexico Liga MX Femenil'',
         date = d, country = Some ''Mexico'',
         homeWinOdds = Some (fl 2.50), awayWinOdds = Some (fl 2.60), drawOdds = Some (fl 3.25) \<rparr>,
       \<lparr> homeTeam = ''Santa Fe'', awayTeam = ''Millonarios'',
         homeWinChance = 36, awayWinChance = 36, drawChance = 34,
         matchTime = ''01:30'', competition = ''Colombia Primera A'',
         date = d, country = Some ''Colombia'',
         homeWinOdds = Some (fl 2.80), awayWinOdds = Some (fl 2.75), drawOdds = Some (fl 2.90) \<rparr> ]"

subsection \<open>Fetching\<close>

text \<open>
  An awaited call either yields a value or throws: \<open>Inl\<close> is the exception. The HTTP
  client is a function from the requested URL to the outcome of the request: an
  exception (network failure, timeout, a status outside 2xx), or the body of the
  response. A body is a falsy value, a truthy value that is not an array, or an array,
  whose elements the service takes to be \<open>BetminerMatch\<close> objects.
\<close>

datatype error = RequestError | StoreError | ValidationError

datatype response_data = Falsy | NonArray | Array "BetminerMatch list"

type_synonym http_client = "string \<Rightarrow> error + response_data"

definition baseUrl :: string where
  "baseUrl = ''https://betminer.p.rapidapi.com/bm/predictions/arrays''"

text \<open>The body of the \<open>try\<close> block of \<open>getBetminerPredictions\<close>.\<close>

definition getBetminerPredictions_try ::
  "parser \<Rightarrow> http_client \<Rightarrow> string \<Rightarrow> error + TransformedPrediction list" where
  "getBetminerPredictions_try parseFloat httpGet d =
     (case httpGet (baseUrl @ ''/'' @ d @ ''/'' @ d) of
        Inl e \<Rightarrow> Inl e
      | Inr Falsy \<Rightarrow> Inr (getMockPredictions d)
      | Inr NonArray \<Rightarrow> Inr (getMockPredictions d)
      | Inr (Array betminerMatches) \<Rightarrow> Inr (transformBetminerData parseFloat betminerMatches))"

text \<open>The whole function: the \<open>catch\<close> clause returns the sample set.\<close>

definition getBetminerPredictions ::
  "parser \<Rightarrow> http_client \<Rightarrow> string \<Rightarrow> error + TransformedPrediction list" where
  "getBetminerPredictions parseFloat httpGet d =
     (case getBetminerPredictions_try parseFloat httpGet d of
        Inl e \<Rightarrow> Inr (getMockPredictions d)
      | Inr r \<Rightarrow> Inr r)"

text \<open>The constructor sets \<open>mockMode\<close> from the configured key, which may be absent.\<close>

definition mockMode :: "string option \<Rightarrow> bool" where
  "mockMode rapidApiKey = (case rapidApiKey of None \<Rightarrow> True | Some k \<Rightarrow> \<not> truthy_str k)"

definition getPredictions ::
  "parser \<Rightarrow> http_client \<Rightarrow> string option \<Rightarrow> string \<Rightarrow> error + TransformedPrediction list" where
  "getPredictions parseFloat httpGet rapidApiKey d =
     (if mockMode rapidApiKey then Inr (getMockPredictions d)
      else getBetminerPredictions parseFloat httpGet d)"

section \<open>The query engine: \<open>PredictionsService\<close>\<close>

subsection \<open>The cache store\<close>

text \<open>
  A stored document has the fields of a prediction and two more. The collection is the
  list of its documents. Each operation on it may throw; which ones do is a parameter.
\<close>

record PredictionDocument = TransformedPrediction +
  apiSource :: string
  cachedAt :: int

type_synonym collection = "PredictionDocument list"

record store_faults =
  findFails :: bool
  deleteManyFails :: bool
  insertManyFails :: bool

definition no_faults :: store_faults where
  "no_faults = \<lparr> findFails = False, deleteManyFails = False, insertManyFails = False \<rparr>"

text \<open>\<open>find({date, cachedAt: {$gte: cacheThreshold}})\<close>.\<close>

definition find_fresh :: "store_faults \<Rightarrow> collection \<Rightarrow> string \<Rightarrow> int \<Rightarrow> error + collection" where
  "find_fresh faults store d cacheThreshold =
     (if findFails faults then Inl StoreError
      else Inr (filter (\<lambda>p. date p = d \<and> cachedAt p \<ge> cacheThreshold) store))"

text \<open>\<open>deleteMany({date})\<close>.\<close>

definition deleteMany :: "store_faults \<Rightarrow> collection \<Rightarrow> string \<Rightarrow> error + collection" where
  "deleteMany faults store d =
     (if deleteManyFails faults then Inl StoreError
      else Inr (filter (\<lambda>p. date p \<noteq> d) store))"

text \<open>
  The validation that the schema of the collection declares: \<open>date\<close>, \<open>homeTeam\<close>,
  \<open>awayTeam\<close>, \<open>matchTime\<close> and \<open>competition\<close> are required (an empty string does not
  count), and each of the three chances is required, at least 0 and at most 100.
  \<open>cachedAt\<close> is required too, and every document has one.
\<close>

definition schemaValid :: "PredictionDocument \<Rightarrow> bool" where
  "schemaValid doc =
     (date doc \<noteq> [] \<and> homeTeam doc \<noteq> [] \<and> awayTeam doc \<noteq> []
      \<and> 0 \<le> homeWinChance doc \<and> homeWinChance doc \<le> 100
      \<and> 0 \<le> awayWinChance doc \<and> awayWinChance doc \<le> 100
      \<and> 0 \<le> drawChance doc \<and> drawChance doc \<le> 100
      \<and> matchTime doc \<noteq> [] \<and> competition doc \<noteq> [])"

text \<open>
  \<open>insertMany(docs)\<close> validates every document before it writes any: when one fails, it
  throws and nothing is inserted.
\<close>

definition insertMany :: "store_faults \<Rightarrow> collection \<Rightarrow> collection \<Rightarrow> error + collection" where
  "insertMany faults store docs =
     (if insertManyFails faults then Inl StoreError
      else if \<not> list_all schemaValid docs then Inl ValidationError
      else Inr (store @ docs))"

subsection \<open>Filters and transformations\<close>

text \<open>The team filter is absent, or a string; the empty string is falsy.\<close>

definition hasTeamFilter :: "string option \<Rightarrow> bool" where
  "hasTeamFilter teamFilter = (case teamFilter of None \<Rightarrow> False | Some t \<Rightarrow> truthy_str t)"

definition matchesTeam :: "string option \<Rightarrow> 'a TransformedPrediction_scheme \<Rightarrow> bool" where
  "matchesTeam teamFilter p =
     (case teamFilter of
        None \<Rightarrow> True
      | Some t \<Rightarrow>
          str_includes (toLowerCase (homeTeam p)) (toLowerCase t)
          \<or> str_includes (toLowerCase (awayTeam p)) (toLowerCase t))"

definition documentToDto :: "PredictionDocument \<Rightarrow> PredictionResponseDto" where
  "documentToDto p =
     \<lparr> homeTeam = homeTeam p, awayTeam = awayTeam p,
       homeWinChance = homeWinChance p, awayWinChance = awayWinChance p,
       drawChance = drawChance p, matchTime = matchTime p,
       competition = competition p, date = date p, country = country p,
       homeWinOdds = homeWinOdds p, awayWinOdds = awayWinOdds p, drawOdds = drawOdds p \<rparr>"

definition filterAndTransformPredictions ::
  "collection \<Rightarrow> string option \<Rightarrow> PredictionResponseDto list" where
  "filterAndTransformPredictions predictions teamFilter =
     (let filtered = filter (\<lambda>p. homeWinChance p > 50) predictions;
          filtered = (if hasTeamFilter teamFilter then filter (matchesTeam teamFilter) filtered
                      else filtered)
      in map documentToDto filtered)"

text \<open>\<open>n || 0\<close> on a number.\<close>

definition num_or_zero :: "int \<Rightarrow> int" where
  "num_or_zero n = (if n \<noteq> 0 then n else 0)"

definition filterPredictionsByHomeWinChance ::
  "TransformedPrediction list \<Rightarrow> TransformedPrediction list" where
  "filterPredictionsByHomeWinChance predictions =
     filter (\<lambda>prediction. num_or_zero (homeWinChance prediction) > 50) predictions"

definition transformApiToDto :: "TransformedPrediction list \<Rightarrow> PredictionResponseDto list" where
  "transformApiToDto apiPredictions =
     map (\<lambda>prediction.
            \<lparr> homeTeam = or_str (homeTeam prediction) ''Unknown Home'',
              awayTeam = or_str (awayTeam prediction) ''Unknown Away'',
              homeWinChance = num_or_zero (homeWinChance prediction),
              awayWinChance = num_or_zero (awayWinChance prediction),
              drawChance = num_or_zero (drawChance prediction),
              matchTime = or_str (matchTime prediction) ''00:00'',
              competition = or_str (competition prediction) ''Unknown League'',
              date = date prediction, country = country prediction,
              homeWinOdds = homeWinOdds prediction, awayWinOdds = awayWinOdds prediction,
              drawOdds = drawOdds prediction \<rparr>)
         apiPredictions"

subsection \<open>Refreshing the cache\<close>

text \<open>
  The document built from a prediction, the function mapped over the predictions in
  \<open>cacheApiPredictions\<close>; \<open>t\<close> is the clock that \<open>new Date()\<close> reads while this document is
  built.
\<close>

definition predictionDoc :: "string \<Rightarrow> int \<Rightarrow> TransformedPrediction \<Rightarrow> PredictionDocument" where
  "predictionDoc d t prediction =
     \<lparr> homeTeam = or_str (homeTeam prediction) ''Unknown Home'',
       awayTeam = or_str (awayTeam prediction) ''Unknown Away'',
       homeWinChance = num_or_zero (homeWinChance prediction),
       awayWinChance = num_or_zero (awayWinChance prediction),
       drawChance = num_or_zero (drawChance prediction),
       matchTime = or_str (matchTime prediction) ''00:00'',
       competition = or_str (competition prediction) ''Unknown League'',
       date = d, country = country prediction,
       homeWinOdds = homeWinOdds prediction, awayWinOdds = awayWinOdds prediction,
       drawOdds = drawOdds prediction,
       apiSource = ''betminer'', cachedAt = t \<rparr>"

text \<open>
  \<open>cacheApiPredictions\<close> returns nothing and changes the collection. The clock is read
  once for each prediction: \<open>writeTime i\<close> is what it shows for the prediction at index
  \<open>i\<close>. An exception of either operation is caught: the collection stays as the
  operations before it left it.
\<close>

definition cacheApiPredictions ::
  "store_faults \<Rightarrow> (nat \<Rightarrow> int) \<Rightarrow> collection \<Rightarrow> TransformedPrediction list \<Rightarrow> string
   \<Rightarrow> collection" where
  "cacheApiPredictions faults writeTime store predictions d =
     (case deleteMany faults store d of
        Inl e \<Rightarrow> store
      | Inr deleted \<Rightarrow>
          (case insertMany faults deleted
                  (map (\<lambda>(i, prediction). predictionDoc d (writeTime i) prediction)
                       (enumerate 0 predictions)) of
             Inl e \<Rightarrow> deleted
           | Inr inserted \<Rightarrow> inserted))"

subsection \<open>The two query operations\<close>

record PredictionsResult =
  predictions :: "PredictionResponseDto list"
  cached :: bool

text \<open>
  A query takes the faults of the store, the injected upstream service, the clock at the
  freshness check (\<open>now\<close>) and during the refresh (\<open>writeTime\<close>), and the collection; it
  returns the result and the collection it leaves, or the exception it throws.
\<close>

type_synonym api = "string \<Rightarrow> error + TransformedPrediction list"

definition getPredictionsForDate ::
  "store_faults \<Rightarrow> api \<Rightarrow> int \<Rightarrow> (nat \<Rightarrow> int) \<Rightarrow> collection \<Rightarrow> string \<Rightarrow> string option
   \<Rightarrow> error + (PredictionsResult \<times> collection)" where
  "getPredictionsForDate faults footballApi now writeTime store d teamFilter =
     (let cacheThreshold = now - 2 * 60 * 60 * 1000
      in case find_fresh faults store d cacheThreshold of
           Inl e \<Rightarrow> Inl e
         | Inr cachedPredictions \<Rightarrow>
             if length cachedPredictions > 0
             then Inr (\<lparr> predictions = filterAndTransformPredictions cachedPredictions teamFilter,
                         cached = True \<rparr>, store)
             else (case footballApi d of
                     Inl e \<Rightarrow> Inl e
                   | Inr apiPredictions \<Rightarrow>
                       (let store' = (if length apiPredictions > 0
                                      then cacheApiPredictions faults writeTime store apiPredictions d
                                      else store);
                            filteredPredictions = filterPredictionsByHomeWinChance apiPredictions;
                            transformedPredictions = transformApiToDto filteredPredictions;
                            finalPredictions =
                              (if hasTeamFilter teamFilter
                               then filter (matchesTeam teamFilter) transformedPredictions
                               else transformedPredictions)
                        in Inr (\<lparr> predictions = finalPredictions, cached = False \<rparr>, store'))))"

definition getAllPredictionsForDate ::
  "store_faults \<Rightarrow> api \<Rightarrow> int \<Rightarrow> (nat \<Rightarrow> int) \<Rightarrow> collection \<Rightarrow> string \<Rightarrow> string option
   \<Rightarrow> error + (PredictionsResult \<times> collection)" where
  "getAllPredictionsForDate faults footballApi now writeTime store d teamFilter =
     (let cacheThreshold = now - 2 * 60 * 60 * 1000
      in case find_fresh faults store d cacheThreshold of
           Inl e \<Rightarrow> Inl e
         | Inr cachedPredictions \<Rightarrow>
             if length cachedPredictions > 0
             then (let filtered = (if hasTeamFilter teamFilter
                                   then filter (matchesTeam teamFilter) cachedPredictions
                                   else cachedPredictions);
                       transformedPredictions = map documentToDto filtered
                   in Inr (\<lparr> predictions = transformedPredictions, cached = True \<rparr>, store))
             else (case footballApi d of
                     Inl e \<Rightarrow> Inl e
                   | Inr apiPredictions \<Rightarrow>
                       (let store' = (if length apiPredictions > 0
                                      then cacheApiPredictions faults writeTime store apiPredictions d
                                      else store);
                            transformedPredictions = transformApiToDto apiPredictions;
                            finalPredictions =
                              (if hasTeamFilter teamFilter
                               then filter (matchesTeam teamFilter) transformedPredictions
                               else transformedPredictions)
                        in Inr (\<lparr> predictions = finalPredictions, cached = False \<rparr>, store'))))"

section \<open>Worked examples: the inputs\<close>

text \<open>
  The concrete runs below use one upstream match with chosen team names, home odds and
  home confidence; the upstream service without a key; and a collection whose documents
  were cached at a given time from the sample set, with every home chance lowered by 6
  (so that one of them is exactly 50).
\<close>

definition exampleMatch :: "string \<Rightarrow> string \<Rightarrow> string \<Rightarrow> string option \<Rightarrow> BetminerMatch" where
  "exampleMatch home away homeOdds homeConfidence =
     \<lparr> details = \<lparr> match_details.date = ''2025-08-14 18:30:00'',
                   match_details.homeTeam = home, match_details.awayTeam = away,
                   match_details.country = ''England'', match_details.competition = ''EPL'',
                   competition_full = ''England Premier League'' \<rparr>,
       predictions_conf = (case homeConfidence of
                             None \<Rightarrow> Map.empty
                           | Some c \<Rightarrow> [''HOME_WIN'' \<mapsto> c]),
       odds = \<lparr> home_win_odds = homeOdds, away_win_odds = ''5.50'', draw_odds = ''3.10'' \<rparr> \<rparr>"

definition offlineApi :: api where
  "offlineApi = getPredictions parseDecimal (\<lambda>url. Inl RequestError) None"

definition exampleStore :: "int \<Rightarrow> collection" where
  "exampleStore t =
     map (\<lambda>p. predictionDoc ''2025-08-12'' t (p\<lparr>homeWinChance := homeWinChance p - 6\<rparr>))
         (getMockPredictions ''2025-08-12'')"

section \<open>Auxiliary facts\<close>

subsection \<open>Rounding to a double\<close>

lemma bit_length_bounds:
  "0 < n \<Longrightarrow> 2 ^ (bit_length n - 1) \<le> n \<and> n < 2 ^ bit_length n"
proof (induction n rule: bit_length.induct)
  case (1 n)
  show ?case
  proof (cases "n = 1")
    case True
    then show ?thesis by (simp add: bit_length.simps)
  next
    case False
    with "1.prems" have m: "0 < n div 2" by simp
    have bl: "bit_length n = Suc (bit_length (n div 2))"
      using "1.prems" by (subst bit_length.simps) simp
    have pos: "0 < bit_length (n div 2)"
      using m by (subst bit_length.simps) simp
    from "1.IH" "1.prems" m
    have ih: "2 ^ (bit_length (n div 2) - 1) \<le> n div 2" "n div 2 < 2 ^ bit_length (n div 2)"
      by simp_all
    have "(2::int) ^ bit_length (n div 2) = 2 * 2 ^ (bit_length (n div 2) - 1)"
      using pos by (cases "bit_length (n div 2)") simp_all
    with ih show ?thesis unfolding bl by (simp; linarith)
  qed
qed

lemma pow2_le_of_int: "(2::int) ^ k \<le> n \<Longrightarrow> (2::real) ^ k \<le> of_int n"
  by (metis of_int_le_iff of_int_numeral of_int_power)

lemma ilog2_bounds:
  assumes "0 < x"
  shows "2 powi ilog2 x \<le> x \<and> x < 2 powi (ilog2 x + 1)"
proof (cases "1 \<le> x")
  case True
  define n where "n = \<lfloor>x\<rfloor>"
  have n: "0 < n" using True by (simp add: n_def)
  have e: "ilog2 x = int (bit_length n) - 1" using True by (simp add: ilog2_def n_def)
  have pos: "0 < bit_length n" using n by (subst bit_length.simps) simp
  from bit_length_bounds [OF n]
  have lo: "2 ^ (bit_length n - 1) \<le> n" and hi: "n < 2 ^ bit_length n" by simp_all
  have "(2::real) ^ (bit_length n - 1) \<le> of_int n" using lo by (rule pow2_le_of_int)
  moreover have "of_int n \<le> x" by (simp add: n_def)
  ultimately have a: "2 ^ (bit_length n - 1) \<le> x" by linarith
  have "n + 1 \<le> 2 ^ bit_length n" using hi by simp
  then have "real_of_int (n + 1) \<le> of_int (2 ^ bit_length n)" by (simp only: of_int_le_iff)
  moreover have "x < of_int (n + 1)" by (simp add: n_def)
  ultimately have b: "x < 2 ^ bit_length n" by simp
  have p1: "(2::real) powi (int (bit_length n) - 1) = 2 ^ (bit_length n - 1)"
    using pos by (simp add: power_int_def nat_diff_distrib')
  have p2: "(2::real) powi (int (bit_length n) - 1 + 1) = 2 ^ bit_length n"
    by simp
  show ?thesis unfolding e p1 p2 using a b by simp
next
  case False
  define y where "y = 1 / x"
  have y: "1 < y" using False assms by (simp add: y_def)
  define c where "c = \<lceil>y\<rceil> - 1"
  have c: "0 < c" using y unfolding c_def by linarith
  have e: "ilog2 x = - int (bit_length c)" using False by (simp add: ilog2_def c_def y_def)
  have pos: "0 < bit_length c" using c by (subst bit_length.simps) simp
  from bit_length_bounds [OF c]
  have lo: "2 ^ (bit_length c - 1) \<le> c" and hi: "c < 2 ^ bit_length c" by simp_all
  have "c + 1 \<le> 2 ^ bit_length c" using hi by simp
  then have "real_of_int (c + 1) \<le> of_int (2 ^ bit_length c)" by (simp only: of_int_le_iff)
  moreover have "y \<le> of_int (c + 1)" by (simp add: c_def)
  ultimately have yb: "y \<le> 2 ^ bit_length c" by simp
  have "(2::real) ^ (bit_length c - 1) \<le> of_int c" using lo by (rule pow2_le_of_int)
  moreover have "of_int c < y" unfolding c_def by linarith
  ultimately have ya: "2 ^ (bit_length c - 1) < y" by linarith
  have a: "1 / 2 ^ bit_length c \<le> x"
    using yb assms unfolding y_def by (simp add: field_simps)
  have b: "x < 1 / 2 ^ (bit_length c - 1)"
    using ya assms unfolding y_def by (simp add: field_simps)
  have p1: "(2::real) powi (- int (bit_length c)) = 1 / 2 ^ bit_length c"
    by (simp add: power_int_minus field_simps)
  have ex: "- int (bit_length c) + 1 = - int (bit_length c - 1)" using pos by simp
  have p2: "(2::real) powi (- int (bit_length c) + 1) = 1 / 2 ^ (bit_length c - 1)"
    unfolding ex by (simp add: power_int_minus field_simps)
  show ?thesis unfolding e p1 p2 using a b by simp
qed

lemma round_half_even_error: "\<bar>of_int (round_half_even q) - q\<bar> \<le> 1 / 2"
  unfolding round_half_even_def by (simp; linarith)

text \<open>Above the subnormal numbers, rounding to a double changes a number by at most one part in \<open>2 ^ 53\<close>.\<close>

lemma fl_relative_error:
  assumes "2 powi (- 1022) \<le> x"
  shows "\<bar>fl x - x\<bar> \<le> x / 2 ^ 53 \<and> 0 < fl x"
proof -
  have "(0::real) < 2 powi (- 1022)" by simp
  with assms have x: "0 < x" by linarith
  have "(2::real) powi (- 1022) < 2 powi (ilog2 x + 1)"
    using assms ilog2_bounds [OF x] by linarith
  then have e: "- 1022 \<le> ilog2 x"
    using power_int_increasing [of "ilog2 x + 1" "- 1022" "2::real"]
    by (cases "- 1022 \<le> ilog2 x") auto
  define u where "u = quantum x"
  have u: "u = 2 powi (ilog2 x - 52)" using e x by (simp add: u_def quantum_def max_def)
  have upos: "0 < u" unfolding u by simp
  have "u = 2 powi ilog2 x / 2 ^ 52" unfolding u by (simp add: power_int_diff)
  then have ux: "u * 2 ^ 52 \<le> x" using ilog2_bounds [OF x] by simp
  define m where "m = round_half_even (x / u)"
  have f: "fl x = of_int m * u" using x by (simp add: fl_def u_def m_def)
  have "\<bar>of_int m - x / u\<bar> \<le> 1 / 2" unfolding m_def by (rule round_half_even_error)
  then have "\<bar>of_int m - x / u\<bar> * u \<le> 1 / 2 * u" using upos by (simp add: mult_right_mono)
  moreover have "\<bar>of_int m - x / u\<bar> * u = \<bar>of_int m * u - x\<bar>"
  proof -
    have "\<bar>of_int m - x / u\<bar> * u = \<bar>(of_int m - x / u) * u\<bar>"
      using upos by (simp add: abs_mult)
    moreover have "(of_int m - x / u) * u = of_int m * u - x"
      using upos by (simp add: field_simps)
    ultimately show ?thesis by simp
  qed
  ultimately have err: "\<bar>fl x - x\<bar> \<le> u / 2" unfolding f by simp
  have "u / 2 \<le> x / 2 ^ 53" using ux by simp
  with err have r: "\<bar>fl x - x\<bar> \<le> x / 2 ^ 53" by linarith
  have "x / 2 ^ 53 < x" using x by simp
  with r have "0 < fl x" by linarith
  with r show ?thesis by simp
qed

text \<open>
  The double that \<open>(1 / v) * 100\<close> evaluates to is within one part in \<open>2 ^ 51\<close> of \<open>100 / v\<close>,
  as long as \<open>v\<close> is far from the ends of the double range.
\<close>

lemma double_product_error:
  assumes lo: "1 / 2 ^ 1000 \<le> v" and hi: "v \<le> 2 ^ 1000"
  shows "\<bar>fl (fl (1 / v) * 100) - 100 / v\<bar> \<le> (100 / v) / 2 ^ 51"
proof -
  have "(0::real) < 1 / 2 ^ 1000" by simp
  with lo have v: "0 < v" by linarith
  define y where "y = 1 / v"
  have y: "0 < y" using v by (simp add: y_def)
  have ylo: "1 / 2 ^ 1000 \<le> y"
    using hi v unfolding y_def by (simp add: field_simps)
  have small: "(2::real) powi (- 1022) \<le> 1 / 2 ^ 1000"
    by (simp add: power_int_minus field_simps)
  have e1: "\<bar>fl y - y\<bar> \<le> y / 2 ^ 53" and p1: "0 < fl y"
    using fl_relative_error [of y] ylo small by simp_all
  define p where "p = fl y * 100"
  have "y / 2 ^ 53 \<le> y / 2" using y by simp
  with e1 have "y / 2 \<le> fl y" by linarith
  then have plo: "y \<le> p" unfolding p_def using y by linarith
  have e2: "\<bar>fl p - p\<bar> \<le> p / 2 ^ 53"
    using fl_relative_error [of p] plo ylo small by simp
  have pd: "\<bar>p - 100 * y\<bar> \<le> 100 * (y / 2 ^ 53)" unfolding p_def using e1 by linarith
  have "y / 2 ^ 53 \<le> y" using y by simp
  with pd have "p \<le> 200 * y" by linarith
  then have "p / 2 ^ 53 \<le> 200 * (y / 2 ^ 53)" by simp
  with e2 pd have "\<bar>fl p - 100 * y\<bar> \<le> 300 * (y / 2 ^ 53)" by linarith
  moreover have "300 * (y / 2 ^ 53) \<le> (100 * y) / 2 ^ 51" using y by simp
  ultimately have "\<bar>fl p - 100 * y\<bar> \<le> (100 * y) / 2 ^ 51" by linarith
  then show ?thesis unfolding p_def y_def by simp
qed

lemma floor_half_error: "\<bar>of_int \<lfloor>x + 1 / 2\<rfloor> - x\<bar> \<le> 1 / (2::real)"
  by linarith

text \<open>Two numbers closer to each other than either is to a tie round to the same integer.\<close>

lemma floor_half_eq:
  fixes x z d :: real
  assumes close: "\<bar>z - x\<bar> \<le> d"
    and ties: "\<forall>k::int. d < \<bar>x - (of_int k + 1 / 2)\<bar>"
  shows "\<lfloor>z + 1 / 2\<rfloor> = \<lfloor>x + 1 / 2\<rfloor>"
proof -
  define r where "r = \<lfloor>x + 1 / 2\<rfloor>"
  define n where "n = \<lfloor>z + 1 / 2\<rfloor>"
  have rx: "of_int r \<le> x + 1 / 2" "x + 1 / 2 < of_int r + 1" unfolding r_def by linarith+
  have nz: "of_int n \<le> z + 1 / 2" "z + 1 / 2 < of_int n + 1" unfolding n_def by linarith+
  have "n = r"
  proof (rule ccontr)
    assume "n \<noteq> r"
    then consider "n + 1 \<le> r" | "r + 1 \<le> n" by linarith
    then show False
    proof cases
      case 1
      then have "real_of_int n + 1 \<le> of_int r" by linarith
      with rx nz close have "\<bar>x - (of_int (r - 1) + 1 / 2)\<bar> \<le> d" by simp
      with ties [rule_format, of "r - 1"] show False by linarith
    next
      case 2
      then have "real_of_int r + 1 \<le> of_int n" by linarith
      with rx nz close have "\<bar>x - (of_int r + 1 / 2)\<bar> \<le> d" by linarith
      with ties [rule_format, of r] show False by linarith
    qed
  qed
  then show ?thesis by (simp add: n_def r_def)
qed

subsection \<open>The inputs of the worked examples\<close>

lemmas fl_eval = fl_def quantum_def ilog2_def round_half_even_def bit_length.simps

lemmas parse_eval = parseDecimal_def parseUnsigned_def digit_val_def fl_eval

lemmas odds_eval = calculateWinChanceFromOdds_def Math_round_def parse_eval

lemma parseDecimal_180: "parseDecimal ''1.80'' = Some (8106479329266893 / 4503599627370496)"
  by (simp add: parse_eval)

lemma parseDecimal_75: "parseDecimal ''75'' = Some 75"
  by (simp add: parse_eval)

lemma parseDecimal_abc: "parseDecimal ''abc'' = None"
  by (simp add: parse_eval)

lemma parseDecimal_neg: "parseDecimal ''-2.00'' = Some (- 2)"
  by (simp add: parse_eval)

lemma odds_180: "calculateWinChanceFromOdds parseDecimal ''1.80'' = Some 56"
  by (simp add: odds_eval)

lemma odds_550: "calculateWinChanceFromOdds parseDecimal ''5.50'' = Some 18"
  by (simp add: odds_eval)

lemma odds_310: "calculateWinChanceFromOdds parseDecimal ''3.10'' = Some 32"
  by (simp add: odds_eval)

lemma odds_half: "calculateWinChanceFromOdds parseDecimal ''0.5'' = Some 200"
  by (simp add: odds_eval)

lemma odds_250: "calculateWinChanceFromOdds parseDecimal ''250.00'' = Some 0"
  by (simp add: odds_eval)

lemma odds_na: "calculateWinChanceFromOdds parseDecimal ''n/a'' = None"
  by (simp add: odds_eval)

lemmas odds_examples = odds_180 odds_550 odds_310 odds_half odds_250 odds_na

lemmas transform_defs =
  transformBetminerData_def transformMatch_def validPrediction_def exampleMatch_def
  resolveHomeWinChance_def resolveAwayWinChance_def resolveDrawChance_def
  odds_examples parseConfidence_def extractTimeFromDate_def
  or_zero_def or_num_def truthy_num_def or_str_def truthy_str_def

lemma enumerate_snd: "(i, p) \<in> set (enumerate n R) \<Longrightarrow> p \<in> set R"
  by (auto simp: in_set_enumerate_eq)

lemma offlineApi_mock: "offlineApi d = Inr (getMockPredictions d)"
  by (simp add: offlineApi_def getPredictions_def mockMode_def)

lemmas run_defs =
  getPredictionsForDate_def getAllPredictionsForDate_def find_fresh_def no_faults_def
  filterAndTransformPredictions_def documentToDto_def hasTeamFilter_def
  filterPredictionsByHomeWinChance_def transformApiToDto_def cacheApiPredictions_def
  deleteMany_def insertMany_def schemaValid_def predictionDoc_def num_or_zero_def or_str_def
  truthy_str_def getMockPredictions_def exampleStore_def offlineApi_mock Let_def

subsection \<open>The query engine\<close>

lemma date_predictionDoc: "date (predictionDoc d t prediction) = d"
  by (simp add: predictionDoc_def)

lemma filterAndTransform_gt50:
  "p \<in> set (filterAndTransformPredictions cachedPredictions teamFilter) \<Longrightarrow> homeWinChance p > 50"
  by (auto simp: filterAndTransformPredictions_def documentToDto_def Let_def split: if_splits)

lemma transformed_gt50:
  "p \<in> set (transformApiToDto (filterPredictionsByHomeWinChance apiPredictions)) \<Longrightarrow>
   homeWinChance p > 50"
  by (auto simp: transformApiToDto_def filterPredictionsByHomeWinChance_def)

section \<open>Odds to probability\<close>

text \<open>
  C4, as stated, fails: the value returned is the rounding of the double that
  \<open>(1 / odds) * 100\<close> evaluates to, which is not always \<open>round (100 / odds)\<close>. For the
  string \<open>1.60\<close> the function returns 63 while \<open>100\<close> divided by the double that the string
  parses to rounds to 62; for the string \<open>0.00256\<close> it returns 39062 while \<open>100 / 0.00256\<close>
  is 39062.5 and rounds to 39063.
\<close>

theorem fromOdds_not_round_counterexample:
  "parseDecimal ''1.60'' = Some (3602879701896397 / 2251799813685248)
   \<and> calculateWinChanceFromOdds parseDecimal ''1.60'' = Some 63
   \<and> round (100 / (3602879701896397 / 2251799813685248 :: real)) = 62
   \<and> calculateWinChanceFromOdds parseDecimal ''0.00256'' = Some 39062
   \<and> round (100 / (0.00256 :: real)) = 39063"
proof -
  have a: "parseDecimal ''1.60'' = Some (3602879701896397 / 2251799813685248)"
    by (simp add: parse_eval)
  have b: "calculateWinChanceFromOdds parseDecimal ''1.60'' = Some 63"
    by (simp add: odds_eval)
  have c: "round (100 / (3602879701896397 / 2251799813685248 :: real)) = 62"
    by (simp add: round_def)
  have d: "calculateWinChanceFromOdds parseDecimal ''0.00256'' = Some 39062"
    by (simp add: odds_eval)
  have e: "round (100 / (0.00256 :: real)) = 39063"
    by (simp add: round_def)
  from a b c d e show ?thesis by simp
qed

text \<open>
  C4, amended. When the odds string parses to a double \<open>v\<close> between \<open>2 ^ -1000\<close> and
  \<open>2 ^ 1000\<close>, \<open>calculateWinChanceFromOdds\<close> returns an integer within
  \<open>1 / 2 + (100 / v) / 2 ^ 51\<close> of \<open>100 / v\<close>; it is \<open>round (100 / v)\<close> (the nearest integer, a
  tie going up) unless \<open>100 / v\<close> lies within \<open>(100 / v) / 2 ^ 51\<close> of a tie. When the string
  does not parse, or parses to a value \<open>\<le> 0\<close>, the function returns \<open>null\<close>. It has no
  exception to throw.
\<close>

theorem fromOdds_near_round:
  "(parseFloat s = Some v \<and> 1 / 2 ^ 1000 \<le> v \<and> v \<le> 2 ^ 1000 \<longrightarrow>
      (\<exists>n. calculateWinChanceFromOdds parseFloat s = Some n
          \<and> \<bar>of_int n - 100 / v\<bar> \<le> 1 / 2 + (100 / v) / 2 ^ 51
          \<and> ((\<forall>k::int. (100 / v) / 2 ^ 51 < \<bar>100 / v - (of_int k + 1 / 2)\<bar>) \<longrightarrow>
                n = round (100 / v))))
   \<and> (parseFloat s = None \<or> (parseFloat s = Some v \<and> v \<le> 0) \<longrightarrow>
        calculateWinChanceFromOdds parseFloat s = None)"
proof (intro conjI impI)
  assume a: "parseFloat s = Some v \<and> 1 / 2 ^ 1000 \<le> v \<and> v \<le> 2 ^ 1000"
  have "(0::real) < 1 / 2 ^ 1000" by simp
  with a have v: "0 < v" by linarith
  define z where "z = fl (fl (1 / v) * 100)"
  have c: "calculateWinChanceFromOdds parseFloat s = Some \<lfloor>z + 1 / 2\<rfloor>"
    using a v by (simp add: calculateWinChanceFromOdds_def Math_round_def z_def)
  have close: "\<bar>z - 100 / v\<bar> \<le> (100 / v) / 2 ^ 51"
    unfolding z_def using a by (intro double_product_error) simp_all
  have "\<bar>of_int \<lfloor>z + 1 / 2\<rfloor> - z\<bar> \<le> 1 / 2" by (rule floor_half_error)
  with close have b: "\<bar>of_int \<lfloor>z + 1 / 2\<rfloor> - 100 / v\<bar> \<le> 1 / 2 + (100 / v) / 2 ^ 51"
    by linarith
  have t: "(\<forall>k::int. (100 / v) / 2 ^ 51 < \<bar>100 / v - (of_int k + 1 / 2)\<bar>) \<longrightarrow>
             \<lfloor>z + 1 / 2\<rfloor> = round (100 / v)"
    using floor_half_eq [OF close] by (simp add: round_def)
  from c b t show "\<exists>n. calculateWinChanceFromOdds parseFloat s = Some n
          \<and> \<bar>of_int n - 100 / v\<bar> \<le> 1 / 2 + (100 / v) / 2 ^ 51
          \<and> ((\<forall>k::int. (100 / v) / 2 ^ 51 < \<bar>100 / v - (of_int k + 1 / 2)\<bar>) \<longrightarrow>
                n = round (100 / v))"
    by blast
next
  assume "parseFloat s = None \<or> (parseFloat s = Some v \<and> v \<le> 0)"
  then show "calculateWinChanceFromOdds parseFloat s = None"
    by (auto simp: calculateWinChanceFromOdds_def)
qed

text \<open>
  The string \<open>1.80\<close> parses to a double \<open>v\<close> with \<open>100 / v\<close> between 55.55 and 55.56, far
  from a tie: the function returns \<open>round (100 / v)\<close>, which is 56. Neither \<open>abc\<close> nor
  \<open>-2.00\<close> gives a chance.
\<close>

theorem fromOdds_near_round_witness:
  "calculateWinChanceFromOdds parseDecimal ''1.80''
     = Some (round (100 / (8106479329266893 / 4503599627370496 :: real)))
   \<and> calculateWinChanceFromOdds parseDecimal ''1.80'' = Some 56
   \<and> calculateWinChanceFromOdds parseDecimal ''abc'' = None
   \<and> calculateWinChanceFromOdds parseDecimal ''-2.00'' = None"
proof -
  define v :: real where "v = 8106479329266893 / 4503599627370496"
  define w where "w = 100 / v"
  have range: "1 / 2 ^ 1000 \<le> v" "v \<le> 2 ^ 1000" by (simp_all add: v_def)
  have w: "5555 / 100 < w" "w < 5556 / 100" by (simp_all add: w_def v_def)
  have margin: "w / 2 ^ 51 < 1 / 100" using w(2) by simp
  have ties: "\<forall>k::int. w / 2 ^ 51 < \<bar>w - (of_int k + 1 / 2)\<bar>"
  proof
    fix k :: int
    show "w / 2 ^ 51 < \<bar>w - (of_int k + 1 / 2)\<bar>"
    proof (cases "k \<le> 55")
      case True
      then have "real_of_int k \<le> 55" by linarith
      with w margin show ?thesis by linarith
    next
      case False
      then have "56 \<le> real_of_int k" by linarith
      with w margin show ?thesis by linarith
    qed
  qed
  have p: "parseDecimal ''1.80'' = Some v" by (simp add: parseDecimal_180 v_def)
  obtain n where n: "calculateWinChanceFromOdds parseDecimal ''1.80'' = Some n"
    and r: "(\<forall>k::int. (100 / v) / 2 ^ 51 < \<bar>100 / v - (of_int k + 1 / 2)\<bar>) \<longrightarrow> n = round (100 / v)"
    using fromOdds_near_round [of parseDecimal "''1.80''" v] p range by blast
  from r ties have "n = round (100 / v)" by (simp add: w_def)
  with n have a: "calculateWinChanceFromOdds parseDecimal ''1.80''
     = Some (round (100 / (8106479329266893 / 4503599627370496 :: real)))"
    by (simp add: v_def)
  have "round (100 / (8106479329266893 / 4503599627370496 :: real)) = 56"
    by (simp add: round_def)
  with a have a': "calculateWinChanceFromOdds parseDecimal ''1.80'' = Some 56" by simp
  have b: "calculateWinChanceFromOdds parseDecimal ''abc'' = None"
    using fromOdds_near_round [of parseDecimal "''abc''" 0] parseDecimal_abc by simp
  have c: "calculateWinChanceFromOdds parseDecimal ''-2.00'' = None"
    using fromOdds_near_round [of parseDecimal "''-2.00''" "- 2"] parseDecimal_neg by simp
  from a a' b c show ?thesis by simp
qed

text \<open>
  C8. The claim is that the value returned for odds \<open>v > 0\<close> lies between 0 and 100. The
  function does not bound it: for the odds string \<open>0.5\<close> it returns 200.
\<close>

theorem fromOdds_exceeds_100:
  "calculateWinChanceFromOdds parseDecimal ''0.5'' = Some 200"
  by (simp add: odds_eval)

text \<open>From odds of 1 on, the value does lie between 0 and 100.\<close>

lemma fromOdds_range:
  assumes "parseFloat s = Some v" and "1 \<le> v" and "v \<le> 2 ^ 1000"
  shows "\<exists>n. calculateWinChanceFromOdds parseFloat s = Some n \<and> 0 \<le> n \<and> n \<le> 100"
proof -
  have "(1::real) / 2 ^ 1000 \<le> 1" by simp
  with assms(2) have lo: "1 / 2 ^ 1000 \<le> v" by linarith
  define z where "z = fl (fl (1 / v) * 100)"
  have c: "calculateWinChanceFromOdds parseFloat s = Some \<lfloor>z + 1 / 2\<rfloor>"
    using assms by (simp add: calculateWinChanceFromOdds_def Math_round_def z_def)
  have close: "\<bar>z - 100 / v\<bar> \<le> (100 / v) / 2 ^ 51"
    unfolding z_def using lo assms(3) by (rule double_product_error)
  have q: "0 < 100 / v" "100 / v \<le> 100" using assms(2) by (simp_all add: field_simps)
  have "(100 / v) / 2 ^ 51 \<le> 100 / 2 ^ 51"
    using q(2) by (simp only: divide_right_mono zero_le_power zero_le_numeral)
  then have "(100 / v) / 2 ^ 51 \<le> 1 / 4" by simp
  with close q have "- 1 / 4 < z \<and> z < 100 + 1 / 2" by linarith
  then have "0 \<le> \<lfloor>z + 1 / 2\<rfloor> \<and> \<lfloor>z + 1 / 2\<rfloor> \<le> 100" by linarith
  with c show ?thesis by simp
qed

section \<open>Resolving a chance\<close>

text \<open>
  What the chain \<open>a || b || 0\<close> computes: the odds-derived value when it is a non-zero
  number; otherwise the confidence value when there is one; otherwise 0.
\<close>

lemma chance_resolution:
  "or_zero (or_num a b) =
     (case a of
        Some n \<Rightarrow> if n \<noteq> 0 then n else (case b of Some k \<Rightarrow> k | None \<Rightarrow> 0)
      | None \<Rightarrow> (case b of Some k \<Rightarrow> k | None \<Rightarrow> 0))"
  by (simp add: or_zero_def or_num_def truthy_num_def split: option.splits)

text \<open>
  C7. The claim is that the odds-derived value is preferred whenever the odds parse to a
  positive value. Odds of \<open>250.00\<close> parse and are positive; the value derived from them
  is 0, which the chain takes for a missing value: with a confidence of \<open>75\<close> the home
  chance is 75, not 0.
\<close>

theorem zero_odds_chance_falls_to_confidence:
  "calculateWinChanceFromOdds parseDecimal ''250.00'' = Some 0
   \<and> resolveHomeWinChance parseDecimal (exampleMatch ''Arsenal'' ''Chelsea'' ''250.00'' (Some ''75'')) = 75"
  by (simp add: resolveHomeWinChance_def exampleMatch_def odds_250
      parseConfidence_def parseDecimal_75 Math_round_def truthy_str_def
      or_zero_def or_num_def truthy_num_def)

section \<open>The threshold\<close>

lemma returned_gt50:
  assumes "getPredictionsForDate faults footballApi now writeTime store d teamFilter = Inr (r, store')"
  shows "\<forall>p \<in> set (predictions r). homeWinChance p > 50 \<and> homeWinChance p \<noteq> 50"
proof
  fix p assume p: "p \<in> set (predictions r)"
  obtain c where c: "find_fresh faults store d (now - 2 * 60 * 60 * 1000) = Inr c"
    using assms by (cases "find_fresh faults store d (now - 2 * 60 * 60 * 1000)")
      (simp_all add: getPredictionsForDate_def)
  have "homeWinChance p > 50"
  proof (cases "length c > 0")
    case True
    then have "predictions r = filterAndTransformPredictions c teamFilter"
      using assms c by (auto simp: getPredictionsForDate_def)
    then show ?thesis using p filterAndTransform_gt50 by simp
  next
    case False
    then obtain R where R: "footballApi d = Inr R"
      using assms c by (cases "footballApi d") (simp_all add: getPredictionsForDate_def)
    have "predictions r = (if hasTeamFilter teamFilter
            then filter (matchesTeam teamFilter) (transformApiToDto (filterPredictionsByHomeWinChance R))
            else transformApiToDto (filterPredictionsByHomeWinChance R))"
      using assms c R False by (auto simp: getPredictionsForDate_def Let_def)
    then have "p \<in> set (transformApiToDto (filterPredictionsByHomeWinChance R))"
      using p by (auto split: if_splits)
    then show ?thesis by (rule transformed_gt50)
  qed
  then show "homeWinChance p > 50 \<and> homeWinChance p \<noteq> 50" by simp
qed

lemma query_returns:
  assumes "\<not> findFails faults" and "footballApi d = Inr R"
  shows "\<exists>r store'. getPredictionsForDate faults footballApi now writeTime store d teamFilter
                        = Inr (r, store')"
  using assms by (simp add: getPredictionsForDate_def find_fresh_def Let_def)

text \<open>
  C1. \<open>getPredictionsForDate\<close> returns whenever the read of the cache succeeds and the
  upstream service returns; and whatever it returns, from the cache or from a fresh
  fetch, every returned record has a home chance strictly above 50: a record at exactly
  50 is never among them.
\<close>

theorem threshold_strict:
  "(\<not> findFails faults \<and> footballApi d = Inr R \<longrightarrow>
      (\<exists>r store'. getPredictionsForDate faults footballApi now writeTime store d teamFilter
                      = Inr (r, store')))
   \<and> (getPredictionsForDate faults footballApi now writeTime store d teamFilter = Inr (r, store') \<longrightarrow>
        (\<forall>p \<in> set (predictions r). homeWinChance p > 50 \<and> homeWinChance p \<noteq> 50))"
  using query_returns [of faults footballApi d R now writeTime store teamFilter]
    returned_gt50 [of faults footballApi now writeTime store d teamFilter r store']
  by blast

text \<open>
  A hit on a collection whose home chances are 15, 50, 93, 34 and 30 returns the record
  at 93 only; a miss on the empty collection returns the sample records at 56 and 99.
\<close>

theorem threshold_strict_witness:
  "(\<exists>r s. getPredictionsForDate no_faults offlineApi 3600000 (\<lambda>i. 3600000) (exampleStore 0) ''2025-08-12'' None
             = Inr (r, s)
         \<and> map homeWinChance (exampleStore 0) = [15, 50, 93, 34, 30]
         \<and> cached r \<and> map homeWinChance (predictions r) = [93]
         \<and> list_all (\<lambda>p. homeWinChance p > 50) (predictions r))
   \<and> (\<exists>r s. getPredictionsForDate no_faults offlineApi 3600000 (\<lambda>i. 3600000) [] ''2025-08-12'' None
             = Inr (r, s)
         \<and> \<not> cached r \<and> map homeWinChance (predictions r) = [56, 99]
         \<and> list_all (\<lambda>p. homeWinChance p > 50) (predictions r))"
proof -
  have "\<exists>r s. getPredictionsForDate no_faults offlineApi 3600000 (\<lambda>i. 3600000) (exampleStore 0) ''2025-08-12'' None
             = Inr (r, s)
         \<and> map homeWinChance (exampleStore 0) = [15, 50, 93, 34, 30]
         \<and> cached r \<and> map homeWinChance (predictions r) = [93]"
    by (simp add: run_defs)
  then obtain r s where
    hit: "getPredictionsForDate no_faults offlineApi 3600000 (\<lambda>i. 3600000) (exampleStore 0) ''2025-08-12'' None
             = Inr (r, s)"
    and hit': "map homeWinChance (exampleStore 0) = [15, 50, 93, 34, 30]" "cached r"
      "map homeWinChance (predictions r) = [93]"
    by (elim exE conjE)
  have "\<exists>r s. getPredictionsForDate no_faults offlineApi 3600000 (\<lambda>i. 3600000) [] ''2025-08-12'' None
             = Inr (r, s)
         \<and> \<not> cached r \<and> map homeWinChance (predictions r) = [56, 99]"
    by (simp add: run_defs)
  then obtain r' s' where
    miss: "getPredictionsForDate no_faults offlineApi 3600000 (\<lambda>i. 3600000) [] ''2025-08-12'' None
             = Inr (r', s')"
    and miss': "\<not> cached r'" "map homeWinChance (predictions r') = [56, 99]"
    by (elim exE conjE)
  have a: "list_all (\<lambda>p. homeWinChance p > 50) (predictions r)"
    using threshold_strict [THEN conjunct2, THEN mp, OF hit] by (simp add: list_all_iff)
  have b: "list_all (\<lambda>p. homeWinChance p > 50) (predictions r')"
    using threshold_strict [THEN conjunct2, THEN mp, OF miss] by (simp add: list_all_iff)
  from hit hit' miss miss' a b show ?thesis by simp
qed

section \<open>Freshness\<close>

text \<open>
  C2. When the read succeeds, the freshness check of a query returns exactly the stored
  records of the requested date whose \<open>cachedAt\<close> is at or after \<open>now\<close> minus two hours,
  in stored order: one cached 119 minutes before \<open>now\<close> is among them, one cached 121
  minutes before is not. The query returns, and its \<open>cached\<close> flag is true exactly when
  that list is not empty.
\<close>

theorem freshness_window:
  assumes "\<not> findFails faults" and "footballApi d = Inr R"
  shows "\<exists>fresh. find_fresh faults store d (now - 2 * 60 * 60 * 1000) = Inr fresh
           \<and> fresh = filter (\<lambda>p. date p = d \<and> cachedAt p \<ge> now - 7200000) store
           \<and> (\<forall>p \<in> set store. date p = d \<and> cachedAt p = now - 119 * 60 * 1000 \<longrightarrow> p \<in> set fresh)
           \<and> (\<forall>p \<in> set store. date p = d \<and> cachedAt p = now - 121 * 60 * 1000 \<longrightarrow> p \<notin> set fresh)
           \<and> (\<exists>r store'. getPredictionsForDate faults footballApi now writeTime store d teamFilter
                             = Inr (r, store')
                 \<and> (cached r \<longleftrightarrow> fresh \<noteq> []))"
proof -
  let ?fresh = "filter (\<lambda>p. date p = d \<and> cachedAt p \<ge> now - 7200000) store"
  have f: "find_fresh faults store d (now - 2 * 60 * 60 * 1000) = Inr ?fresh"
    using assms(1) by (simp add: find_fresh_def)
  have q: "\<exists>r store'. getPredictionsForDate faults footballApi now writeTime store d teamFilter
                             = Inr (r, store') \<and> (cached r \<longleftrightarrow> ?fresh \<noteq> [])"
  proof (cases "?fresh = []")
    case True
    with f assms(2) show ?thesis by (simp add: getPredictionsForDate_def Let_def)
  next
    case False
    with f show ?thesis by (simp add: getPredictionsForDate_def Let_def)
  qed
  show ?thesis using f q by auto
qed

text \<open>
  Of ten documents, five cached 119 minutes ago and five 121 minutes ago, the check
  returns the first five, and the query is served from the cache.
\<close>

theorem freshness_window_witness:
  "\<exists>fresh r store'.
     find_fresh no_faults (exampleStore (10000000 - 119 * 60 * 1000) @ exampleStore (10000000 - 121 * 60 * 1000))
        ''2025-08-12'' (10000000 - 2 * 60 * 60 * 1000) = Inr fresh
   \<and> fresh = exampleStore (10000000 - 119 * 60 * 1000)
   \<and> getPredictionsForDate no_faults offlineApi 10000000 (\<lambda>i. 10000000)
        (exampleStore (10000000 - 119 * 60 * 1000) @ exampleStore (10000000 - 121 * 60 * 1000))
        ''2025-08-12'' None = Inr (r, store')
   \<and> cached r"
proof -
  let ?store = "exampleStore (10000000 - 119 * 60 * 1000) @ exampleStore (10000000 - 121 * 60 * 1000)"
  have nf: "\<not> findFails no_faults" by (simp add: no_faults_def)
  obtain fresh r store' where
    f: "find_fresh no_faults ?store ''2025-08-12'' (10000000 - 2 * 60 * 60 * 1000) = Inr fresh"
    and e: "fresh = filter (\<lambda>p. date p = ''2025-08-12'' \<and> cachedAt p \<ge> 10000000 - 7200000) ?store"
    and q: "getPredictionsForDate no_faults offlineApi 10000000 (\<lambda>i. 10000000) ?store ''2025-08-12'' None
              = Inr (r, store')"
    and c: "cached r \<longleftrightarrow> fresh \<noteq> []"
    using freshness_window [where footballApi = offlineApi and store = ?store and now = 10000000
        and writeTime = "\<lambda>i. 10000000" and teamFilter = None, OF nf offlineApi_mock] by blast
  have v: "fresh = exampleStore (10000000 - 119 * 60 * 1000)"
    unfolding e by (simp add: exampleStore_def getMockPredictions_def predictionDoc_def)
  have "fresh \<noteq> []" unfolding v by (simp add: exampleStore_def getMockPredictions_def)
  with c have "cached r" by simp
  with f v q show ?thesis by simp
qed

section \<open>Refreshing the cache\<close>

lemma built_docs_valid:
  assumes "d \<noteq> []"
    and "\<forall>p \<in> set R. 0 \<le> homeWinChance p \<and> homeWinChance p \<le> 100
                    \<and> 0 \<le> awayWinChance p \<and> awayWinChance p \<le> 100
                    \<and> 0 \<le> drawChance p \<and> drawChance p \<le> 100"
  shows "list_all schemaValid
           (map (\<lambda>(i, prediction). predictionDoc d (writeTime i) prediction) (enumerate n R))"
  using assms
  by (induction R arbitrary: n)
     (simp_all add: schemaValid_def predictionDoc_def or_str_def truthy_str_def num_or_zero_def)

lemma built_docs_dates:
  "filter (\<lambda>p. date p = d)
      (map (\<lambda>(i, prediction). predictionDoc d (writeTime i) prediction) (enumerate n R))
     = map (\<lambda>(i, prediction). predictionDoc d (writeTime i) prediction) (enumerate n R)
   \<and> filter (\<lambda>p. date p \<noteq> d)
      (map (\<lambda>(i, prediction). predictionDoc d (writeTime i) prediction) (enumerate n R)) = []"
  by (induction R arbitrary: n) (simp_all add: date_predictionDoc)

text \<open>When the insert is rejected after the delete, no document of the date is left.\<close>

lemma refresh_rejected_leaves_none:
  assumes "\<not> deleteManyFails faults"
    and "insertManyFails faults
         \<or> \<not> list_all schemaValid
               (map (\<lambda>(i, prediction). predictionDoc d (writeTime i) prediction) (enumerate 0 R))"
  shows "filter (\<lambda>p. date p = d) (cacheApiPredictions faults writeTime store R d) = []"
  using assms
  by (auto simp: cacheApiPredictions_def deleteMany_def insertMany_def filter_empty_conv)

text \<open>
  C3, as stated, fails: not every record set is stored. The upstream match with home odds
  \<open>0.5\<close> is normalized to one record with a home chance of 200. The refresh deletes the
  five documents of the date, the insert is rejected by the validation of the schema, the
  exception is caught, and the date is left with no document at all: not with the one
  record of the set.
\<close>

theorem refresh_invalid_counterexample:
  "map homeWinChance
      (transformBetminerData parseDecimal [exampleMatch ''Arsenal'' ''Chelsea'' ''0.5'' None]) = [200]
   \<and> length (filter (\<lambda>p. date p = ''2025-08-12'') (exampleStore 0)) = 5
   \<and> filter (\<lambda>p. date p = ''2025-08-12'')
        (cacheApiPredictions no_faults (\<lambda>i. 9) (exampleStore 0)
           (transformBetminerData parseDecimal [exampleMatch ''Arsenal'' ''Chelsea'' ''0.5'' None])
           ''2025-08-12'') = []
   \<and> length (filter (\<lambda>p. date p = ''2025-08-12'')
        (cacheApiPredictions no_faults (\<lambda>i. 9) (exampleStore 0)
           (transformBetminerData parseDecimal [exampleMatch ''Arsenal'' ''Chelsea'' ''0.5'' None])
           ''2025-08-12''))
       \<noteq> length (transformBetminerData parseDecimal [exampleMatch ''Arsenal'' ''Chelsea'' ''0.5'' None])"
  by (simp add: transform_defs run_defs)

text \<open>
  C3, amended. When the delete and the insert do not fail, the date is not empty and the
  three chances of every record of \<open>R\<close> lie between 0 and 100 (so that the documents pass
  the validation of the schema), then after the refresh the collection holds for the
  date exactly one document for each record of \<open>R\<close>, in the order of \<open>R\<close>, whatever it held
  for that date before: the fields of the record, with \<open>Unknown Home\<close>, \<open>Unknown Away\<close>,
  \<open>00:00\<close> and \<open>Unknown League\<close> in place of an empty team, time or competition, the date of
  the refresh, the source \<open>betminer\<close> and the time the clock showed for that record. The
  documents of other dates are untouched, and a second refresh with the same records
  leaves as many documents for the date as there are records.
\<close>

theorem refresh_replaces:
  assumes "\<not> deleteManyFails faults" and "\<not> insertManyFails faults"
    and "d \<noteq> []"
    and "\<forall>p \<in> set R. 0 \<le> homeWinChance p \<and> homeWinChance p \<le> 100
                    \<and> 0 \<le> awayWinChance p \<and> awayWinChance p \<le> 100
                    \<and> 0 \<le> drawChance p \<and> drawChance p \<le> 100"
  shows "filter (\<lambda>p. date p = d) (cacheApiPredictions faults writeTime store R d)
           = map (\<lambda>(i, p).
                    \<lparr> homeTeam = (if homeTeam p = [] then ''Unknown Home'' else homeTeam p),
                      awayTeam = (if awayTeam p = [] then ''Unknown Away'' else awayTeam p),
                      homeWinChance = homeWinChance p,
                      awayWinChance = awayWinChance p,
                      drawChance = drawChance p,
                      matchTime = (if matchTime p = [] then ''00:00'' else matchTime p),
                      competition = (if competition p = [] then ''Unknown League''
                                     else competition p),
                      date = d, country = country p,
                      homeWinOdds = homeWinOdds p, awayWinOdds = awayWinOdds p,
                      drawOdds = drawOdds p,
                      apiSource = ''betminer'', cachedAt = writeTime i \<rparr>)
                 (enumerate 0 R)
         \<and> filter (\<lambda>p. date p \<noteq> d) (cacheApiPredictions faults writeTime store R d)
           = filter (\<lambda>p. date p \<noteq> d) store
         \<and> length (filter (\<lambda>p. date p = d)
              (cacheApiPredictions faults writeTime'
                 (cacheApiPredictions faults writeTime store R d) R d)) = length R"
proof -
  have step: "\<And>w s. cacheApiPredictions faults w s R d
                 = filter (\<lambda>p. date p \<noteq> d) s
                   @ map (\<lambda>(i, prediction). predictionDoc d (w i) prediction) (enumerate 0 R)"
    using assms(1,2) built_docs_valid [OF assms(3,4)]
    by (simp add: cacheApiPredictions_def deleteMany_def insertMany_def)
  have none: "\<And>s. filter (\<lambda>p. date p = d) (filter (\<lambda>p. date p \<noteq> d) s) = []"
    by (simp add: filter_empty_conv)
  have built: "\<And>w. filter (\<lambda>p. date p = d) (cacheApiPredictions faults w store R d)
                 = map (\<lambda>(i, prediction). predictionDoc d (w i) prediction) (enumerate 0 R)"
    by (simp add: step none built_docs_dates)
  have fields: "(\<lambda>(i, prediction). predictionDoc d (writeTime i) prediction)
        = (\<lambda>(i, p).
                    \<lparr> homeTeam = (if homeTeam p = [] then ''Unknown Home'' else homeTeam p),
                      awayTeam = (if awayTeam p = [] then ''Unknown Away'' else awayTeam p),
                      homeWinChance = homeWinChance p,
                      awayWinChance = awayWinChance p,
                      drawChance = drawChance p,
                      matchTime = (if matchTime p = [] then ''00:00'' else matchTime p),
                      competition = (if competition p = [] then ''Unknown League''
                                     else competition p),
                      date = d, country = country p,
                      homeWinOdds = homeWinOdds p, awayWinOdds = awayWinOdds p,
                      drawOdds = drawOdds p,
                      apiSource = ''betminer'', cachedAt = writeTime i \<rparr>)"
    by (simp add: fun_eq_iff predictionDoc_def or_str_def truthy_str_def num_or_zero_def)
  have a: "filter (\<lambda>p. date p = d) (cacheApiPredictions faults writeTime store R d)
           = map (\<lambda>(i, p).
                    \<lparr> homeTeam = (if homeTeam p = [] then ''Unknown Home'' else homeTeam p),
                      awayTeam = (if awayTeam p = [] then ''Unknown Away'' else awayTeam p),
                      homeWinChance = homeWinChance p,
                      awayWinChance = awayWinChance p,
                      drawChance = drawChance p,
                      matchTime = (if matchTime p = [] then ''00:00'' else matchTime p),
                      competition = (if competition p = [] then ''Unknown League''
                                     else competition p),
                      date = d, country = country p,
                      homeWinOdds = homeWinOdds p, awayWinOdds = awayWinOdds p,
                      drawOdds = drawOdds p,
                      apiSource = ''betminer'', cachedAt = writeTime i \<rparr>)
                 (enumerate 0 R)"
    unfolding built fields ..
  have b: "filter (\<lambda>p. date p \<noteq> d) (cacheApiPredictions faults writeTime store R d)
           = filter (\<lambda>p. date p \<noteq> d) store"
    by (simp add: step built_docs_dates)
  have c: "length (filter (\<lambda>p. date p = d)
              (cacheApiPredictions faults writeTime'
                 (cacheApiPredictions faults writeTime store R d) R d)) = length R"
    by (simp add: step none built_docs_dates)
  from a b c show ?thesis by blast
qed

text \<open>
  Five documents of the date are replaced by the first two records of the sample set,
  cached at 9 and at 10; a second refresh leaves two.
\<close>

theorem refresh_replaces_witness:
  "map (\<lambda>p. (homeTeam p, homeWinChance p, date p, apiSource p, cachedAt p))
     (filter (\<lambda>p. date p = ''2025-08-12'')
        (cacheApiPredictions no_faults (\<lambda>i. 9 + int i) (exampleStore 0)
           (take 2 (getMockPredictions ''2025-08-14'')) ''2025-08-12''))
     = [(''Real Soacha'', 21, ''2025-08-12'', ''betminer'', 9),
        (''Deportivo Cali'', 56, ''2025-08-12'', ''betminer'', 10)]
   \<and> length (exampleStore 0) = 5
   \<and> length (filter (\<lambda>p. date p = ''2025-08-12'')
        (cacheApiPredictions no_faults (\<lambda>i. 20)
          (cacheApiPredictions no_faults (\<lambda>i. 9 + int i) (exampleStore 0)
             (take 2 (getMockPredictions ''2025-08-14'')) ''2025-08-12'')
          (take 2 (getMockPredictions ''2025-08-14'')) ''2025-08-12'')) = 2"
  using refresh_replaces [of no_faults "''2025-08-12''" "take 2 (getMockPredictions ''2025-08-14'')"
      "\<lambda>i. 9 + int i" "exampleStore 0" "\<lambda>i. 20"]
  by (simp add: no_faults_def getMockPredictions_def exampleStore_def)

section \<open>Fetching from upstream\<close>

text \<open>
  C5. \<open>getPredictions\<close> always returns a list of records, never an exception. Without a
  key it returns the sample set. With a key, when the request throws or its body is not
  an array, it returns that same sample set for the requested date.
\<close>

theorem live_failure_falls_back:
  "(\<exists>r. getPredictions parseFloat httpGet rapidApiKey d = Inr r)
   \<and> (mockMode offlineKey \<longrightarrow>
        getPredictions parseFloat httpGet offlineKey d = Inr (getMockPredictions d))
   \<and> (\<not> mockMode rapidApiKey
        \<and> (\<forall>betminerMatches. httpGet (baseUrl @ ''/'' @ d @ ''/'' @ d) \<noteq> Inr (Array betminerMatches))
      \<longrightarrow> getPredictions parseFloat httpGet rapidApiKey d = Inr (getMockPredictions d))"
  by (auto simp: getPredictions_def getBetminerPredictions_def getBetminerPredictions_try_def
           split: sum.splits response_data.splits)

text \<open>A failed request, a body that is not an array and a falsy body, each with a key set.\<close>

theorem live_failure_falls_back_witness:
  "\<not> mockMode (Some ''key'') \<and> mockMode None
   \<and> getPredictions parseDecimal (\<lambda>url. Inl RequestError) (Some ''key'') ''2025-08-12''
       = Inr (getMockPredictions ''2025-08-12'')
   \<and> getPredictions parseDecimal (\<lambda>url. Inr NonArray) (Some ''key'') ''2025-08-12''
       = Inr (getMockPredictions ''2025-08-12'')
   \<and> getPredictions parseDecimal (\<lambda>url. Inr Falsy) (Some ''key'') ''2025-08-12''
       = getPredictions parseDecimal (\<lambda>url. Inr Falsy) None ''2025-08-12''"
proof -
  have live: "\<not> mockMode (Some ''key'')" and offline: "mockMode None"
    by (simp_all add: mockMode_def truthy_str_def)
  have a: "getPredictions parseDecimal (\<lambda>url. Inl RequestError) (Some ''key'') ''2025-08-12''
       = Inr (getMockPredictions ''2025-08-12'')"
    using live_failure_falls_back [of parseDecimal "\<lambda>url. Inl RequestError" "Some ''key''"
        "''2025-08-12''" None] live by simp
  have b: "getPredictions parseDecimal (\<lambda>url. Inr NonArray) (Some ''key'') ''2025-08-12''
       = Inr (getMockPredictions ''2025-08-12'')"
    using live_failure_falls_back [of parseDecimal "\<lambda>url. Inr NonArray" "Some ''key''"
        "''2025-08-12''" None] live by simp
  have c: "getPredictions parseDecimal (\<lambda>url. Inr Falsy) (Some ''key'') ''2025-08-12''
       = getPredictions parseDecimal (\<lambda>url. Inr Falsy) None ''2025-08-12''"
    using live_failure_falls_back [of parseDecimal "\<lambda>url. Inr Falsy" "Some ''key''"
        "''2025-08-12''" None] live offline by simp
  from live offline a b c show ?thesis by simp
qed

section \<open>Validity of normalized records\<close>

lemma getPredictions_returns: "\<exists>R. getPredictions parseFloat httpGet rapidApiKey d = Inr R"
  by (auto simp: getPredictions_def getBetminerPredictions_def split: sum.splits)

lemma mock_valid: "p \<in> set (getMockPredictions d) \<Longrightarrow> validPrediction p"
  by (auto simp: getMockPredictions_def validPrediction_def truthy_str_def)

lemma transform_valid: "p \<in> set (transformBetminerData parseFloat ms) \<Longrightarrow> validPrediction p"
  by (simp add: transformBetminerData_def)

lemma live_valid:
  "getPredictions parseFloat httpGet rapidApiKey d = Inr R \<Longrightarrow> p \<in> set R \<Longrightarrow> validPrediction p"
  by (auto simp: getPredictions_def getBetminerPredictions_def getBetminerPredictions_try_def
           split: sum.splits response_data.splits if_splits
           dest: mock_valid transform_valid)

lemma doc_valid:
  "validPrediction p \<Longrightarrow>
   homeTeam (predictionDoc d t p) \<noteq> [] \<and> awayTeam (predictionDoc d t p) \<noteq> []
   \<and> homeWinChance (predictionDoc d t p) > 0"
  by (simp add: validPrediction_def predictionDoc_def or_str_def truthy_str_def num_or_zero_def)

lemma cache_set:
  "set (cacheApiPredictions faults writeTime store R d)
     \<subseteq> set store \<union> {predictionDoc d t p | t p. p \<in> set R}"
  by (auto simp: cacheApiPredictions_def deleteMany_def insertMany_def dest: enumerate_snd)

text \<open>
  C6. Every record that \<open>transformBetminerData\<close> returns has a non-empty home team, a
  non-empty away team and a positive home chance; the record of a match is kept exactly
  when it meets the three conditions. A fetch always returns, and every document that a
  refresh adds to the collection from what it returns, whether the writes fail or not,
  meets the three conditions as well.
\<close>

theorem normalized_records_valid:
  "(\<forall>p \<in> set (transformBetminerData parseFloat betminerMatches).
       homeTeam p \<noteq> [] \<and> awayTeam p \<noteq> [] \<and> homeWinChance p > 0)
   \<and> (\<forall>m \<in> set betminerMatches.
         transformMatch parseFloat m \<in> set (transformBetminerData parseFloat betminerMatches)
         \<longleftrightarrow> match_details.homeTeam (details m) \<noteq> [] \<and> match_details.awayTeam (details m) \<noteq> []
             \<and> resolveHomeWinChance parseFloat m > 0)
   \<and> (\<exists>R. getPredictions parseFloat httpGet rapidApiKey d = Inr R)
   \<and> (\<forall>R. getPredictions parseFloat httpGet rapidApiKey d = Inr R \<longrightarrow>
         (\<forall>doc \<in> set (cacheApiPredictions faults writeTime store R d).
            doc \<in> set store
            \<or> (homeTeam doc \<noteq> [] \<and> awayTeam doc \<noteq> [] \<and> homeWinChance doc > 0)))"
proof -
  have r: "\<exists>R. getPredictions parseFloat httpGet rapidApiKey d = Inr R"
    by (rule getPredictions_returns)
  have a: "\<forall>p \<in> set (transformBetminerData parseFloat betminerMatches).
       homeTeam p \<noteq> [] \<and> awayTeam p \<noteq> [] \<and> homeWinChance p > 0"
  proof
    fix p assume "p \<in> set (transformBetminerData parseFloat betminerMatches)"
    then have "validPrediction p" by (rule transform_valid)
    then show "homeTeam p \<noteq> [] \<and> awayTeam p \<noteq> [] \<and> homeWinChance p > 0"
      by (simp add: validPrediction_def truthy_str_def)
  qed
  have b: "\<forall>m \<in> set betminerMatches.
         transformMatch parseFloat m \<in> set (transformBetminerData parseFloat betminerMatches)
         \<longleftrightarrow> match_details.homeTeam (details m) \<noteq> [] \<and> match_details.awayTeam (details m) \<noteq> []
             \<and> resolveHomeWinChance parseFloat m > 0"
  proof
    fix m assume m: "m \<in> set betminerMatches"
    have "transformMatch parseFloat m \<in> set (transformBetminerData parseFloat betminerMatches)
          \<longleftrightarrow> validPrediction (transformMatch parseFloat m)"
      using m by (auto simp: transformBetminerData_def)
    then show "transformMatch parseFloat m \<in> set (transformBetminerData parseFloat betminerMatches)
           \<longleftrightarrow> match_details.homeTeam (details m) \<noteq> [] \<and> match_details.awayTeam (details m) \<noteq> []
               \<and> resolveHomeWinChance parseFloat m > 0"
      by (simp add: validPrediction_def transformMatch_def truthy_str_def)
  qed
  have c: "\<forall>R. getPredictions parseFloat httpGet rapidApiKey d = Inr R \<longrightarrow>
         (\<forall>doc \<in> set (cacheApiPredictions faults writeTime store R d).
            doc \<in> set store
            \<or> (homeTeam doc \<noteq> [] \<and> awayTeam doc \<noteq> [] \<and> homeWinChance doc > 0))"
  proof (intro allI impI ballI)
    fix R doc
    assume R: "getPredictions parseFloat httpGet rapidApiKey d = Inr R"
      and doc: "doc \<in> set (cacheApiPredictions faults writeTime store R d)"
    show "doc \<in> set store
            \<or> (homeTeam doc \<noteq> [] \<and> awayTeam doc \<noteq> [] \<and> homeWinChance doc > 0)"
    proof (cases "doc \<in> set store")
      case True
      then show ?thesis by simp
    next
      case False
      then obtain t p where "p \<in> set R" and "doc = predictionDoc d t p"
        using doc cache_set [of faults writeTime store R d] by auto
      then show ?thesis using live_valid [OF R] doc_valid by blast
    qed
  qed
  from a b r c show ?thesis by blast
qed

text \<open>
  Of four matches, one well formed, one without an away team, one without usable odds or
  confidence and one without a home team, only the first is kept.
\<close>

theorem normalized_records_valid_witness:
  "map (\<lambda>p. (homeTeam p, awayTeam p, homeWinChance p))
     (transformBetminerData parseDecimal
        [exampleMatch ''Arsenal'' ''Chelsea'' ''1.80'' None,
         exampleMatch ''Leeds'' [] ''1.80'' None,
         exampleMatch ''Fulham'' ''Everton'' ''n/a'' None,
         exampleMatch [] ''Everton'' ''1.80'' None])
     = [(''Arsenal'', ''Chelsea'', 56)]
   \<and> list_all (\<lambda>p. homeTeam p \<noteq> [] \<and> awayTeam p \<noteq> [] \<and> homeWinChance p > 0)
       (transformBetminerData parseDecimal
        [exampleMatch ''Arsenal'' ''Chelsea'' ''1.80'' None,
         exampleMatch ''Leeds'' [] ''1.80'' None,
         exampleMatch ''Fulham'' ''Everton'' ''n/a'' None,
         exampleMatch [] ''Everton'' ''1.80'' None])"
proof -
  let ?ms = "[exampleMatch ''Arsenal'' ''Chelsea'' ''1.80'' None,
         exampleMatch ''Leeds'' [] ''1.80'' None,
         exampleMatch ''Fulham'' ''Everton'' ''n/a'' None,
         exampleMatch [] ''Everton'' ''1.80'' None]"
  have run: "map (\<lambda>p. (homeTeam p, awayTeam p, homeWinChance p))
     (transformBetminerData parseDecimal ?ms) = [(''Arsenal'', ''Chelsea'', 56)]"
    by (simp add: transform_defs)
  have "list_all (\<lambda>p. homeTeam p \<noteq> [] \<and> awayTeam p \<noteq> [] \<and> homeWinChance p > 0)
       (transformBetminerData parseDecimal ?ms)"
    using normalized_records_valid [of parseDecimal ?ms "\<lambda>url. Inl RequestError" None "''2025-08-14''"
        no_faults "\<lambda>i. 0" "[]"]
    by (simp add: list_all_iff)
  with run show ?thesis by simp
qed

section \<open>Failure of the cache write\<close>

text \<open>
  C9. On a miss, whichever of the two writes of the refresh fails, the query returns:
  its result is the result of the same query with both writes succeeding, the \<open>cached\<close>
  flag is false, and the records are the fetched ones, filtered.
\<close>

theorem write_failure_swallowed:
  assumes "find_fresh faults store d (now - 2 * 60 * 60 * 1000) = Inr []"
    and "footballApi d = Inr R"
  shows "\<exists>r store' store''.
           getPredictionsForDate faults footballApi now writeTime store d teamFilter = Inr (r, store')
         \<and> getPredictionsForDate (faults\<lparr>deleteManyFails := False, insertManyFails := False\<rparr>)
               footballApi now writeTime store d teamFilter = Inr (r, store'')
         \<and> cached r = False
         \<and> predictions r =
             (if hasTeamFilter teamFilter
              then filter (matchesTeam teamFilter) (transformApiToDto (filterPredictionsByHomeWinChance R))
              else transformApiToDto (filterPredictionsByHomeWinChance R))"
proof -
  have "find_fresh (faults\<lparr>deleteManyFails := False, insertManyFails := False\<rparr>) store d
          (now - 2 * 60 * 60 * 1000) = Inr []"
    using assms(1) by (simp add: find_fresh_def split: if_splits)
  then show ?thesis
    using assms by (simp add: getPredictionsForDate_def Let_def)
qed

text \<open>
  With a failing insert the query on the empty collection returns the records at 56 and
  99 and leaves the collection empty; with working writes it returns the same result and
  leaves five documents.
\<close>

theorem write_failure_swallowed_witness:
  "\<exists>r store' store''.
     getPredictionsForDate \<lparr> findFails = False, deleteManyFails = False, insertManyFails = True \<rparr>
        offlineApi 3600000 (\<lambda>i. 3600000) [] ''2025-08-12'' None = Inr (r, store')
   \<and> getPredictionsForDate no_faults offlineApi 3600000 (\<lambda>i. 3600000) [] ''2025-08-12'' None = Inr (r, store'')
   \<and> \<not> cached r \<and> map homeWinChance (predictions r) = [56, 99]
   \<and> store' = [] \<and> length store'' = 5"
proof -
  let ?f = "\<lparr> findFails = False, deleteManyFails = False, insertManyFails = True \<rparr>"
  have fr: "find_fresh ?f [] ''2025-08-12'' (3600000 - 2 * 60 * 60 * 1000) = Inr []"
    by (simp add: find_fresh_def)
  have nf: "?f\<lparr>deleteManyFails := False, insertManyFails := False\<rparr> = no_faults"
    by (simp add: no_faults_def)
  have failing: "\<exists>r. getPredictionsForDate ?f offlineApi 3600000 (\<lambda>i. 3600000) [] ''2025-08-12'' None
                    = Inr (r, []) \<and> map homeWinChance (predictions r) = [56, 99]"
    by (simp add: run_defs)
  have working: "\<exists>r s. getPredictionsForDate no_faults offlineApi 3600000 (\<lambda>i. 3600000) [] ''2025-08-12'' None
                    = Inr (r, s) \<and> length s = 5"
    by (simp add: run_defs)
  obtain r store' store'' where
    a: "getPredictionsForDate ?f offlineApi 3600000 (\<lambda>i. 3600000) [] ''2025-08-12'' None = Inr (r, store')"
    and b: "getPredictionsForDate no_faults offlineApi 3600000 (\<lambda>i. 3600000) [] ''2025-08-12'' None = Inr (r, store'')"
    and c: "cached r = False"
    using write_failure_swallowed [where footballApi = offlineApi and writeTime = "\<lambda>i. 3600000"
        and teamFilter = None, OF fr offlineApi_mock]
    unfolding nf by (elim exE conjE)
  have s1: "store' = [] \<and> map homeWinChance (predictions r) = [56, 99]"
    using failing a by auto
  have s2: "length store'' = 5"
    using working b by auto
  from a b c s1 s2 show ?thesis by simp
qed

section \<open>A hit writes nothing\<close>

text \<open>
  C10. When the freshness check finds a record, both query operations return from the
  cache and leave the collection exactly as it was.
\<close>

theorem cache_hit_no_write:
  assumes "find_fresh faults store d (now - 2 * 60 * 60 * 1000) = Inr cachedPredictions"
    and "cachedPredictions \<noteq> []"
  shows "(\<exists>r. getPredictionsForDate faults footballApi now writeTime store d teamFilter = Inr (r, store)
              \<and> cached r)
       \<and> (\<exists>r. getAllPredictionsForDate faults footballApi now writeTime store d teamFilter = Inr (r, store)
              \<and> cached r)"
  using assms by (simp add: getPredictionsForDate_def getAllPredictionsForDate_def Let_def)

text \<open>Both queries on five fresh documents.\<close>

theorem cache_hit_no_write_witness:
  "(\<exists>r. getPredictionsForDate no_faults offlineApi 3600000 (\<lambda>i. 3600000) (exampleStore 0) ''2025-08-12'' None
          = Inr (r, exampleStore 0) \<and> cached r)
   \<and> (\<exists>r. getAllPredictionsForDate no_faults offlineApi 3600000 (\<lambda>i. 3600000) (exampleStore 0) ''2025-08-12'' None
          = Inr (r, exampleStore 0) \<and> cached r)
   \<and> length (exampleStore 0) = 5"
proof -
  have fr: "find_fresh no_faults (exampleStore 0) ''2025-08-12'' (3600000 - 2 * 60 * 60 * 1000)
              = Inr (exampleStore 0)"
    by (simp add: find_fresh_def no_faults_def exampleStore_def getMockPredictions_def predictionDoc_def)
  have ne: "exampleStore 0 \<noteq> []"
    by (simp add: exampleStore_def getMockPredictions_def)
  have "length (exampleStore 0) = 5"
    by (simp add: exampleStore_def getMockPredictions_def)
  with cache_hit_no_write [OF fr ne, where footballApi = offlineApi
      and writeTime = "\<lambda>i. 3600000" and teamFilter = None]
  show ?thesis by simp
qed

end
